theory Spec2Isabelle
  imports
    Main
    "HOL-Library.Sublist"
    "HOL-Library.AList"
    "HOL-Library.Multiset"
    "HOL-Library.Char_ord"
    "HOL-Library.List_Lexorder"
begin

section \<open>The command-line front end (src/erddap_deploy/\_\_main\_\_.py)\<close>

text \<open>
  The module is the click front end of the package: a group callback \<open>main\<close> that
  builds the \<open>Erddap\<close> object and stores it in the click context, and the subcommands
  \<open>save\<close>, \<open>sync\<close> and \<open>test\<close>.  The class \<open>Erddap\<close> (module erddap\_deploy.erddap),
  GitPython, pathlib, pytest and \<open>str.format\<close> are not part of the module: the front
  end is embedded over a record of these collaborators, and every statement about it
  holds for whatever they compute.  Logging calls other than the configuration of the
  sink only write to stderr and are left out.
\<close>

subsection \<open>Values, errors and collaborator calls\<close>

type_synonym path = string

type_synonym secrets = "(string \<times> string) list"

text \<open>
  Exceptions are values.  \<open>AttributeError\<close> is what a method call on \<open>None\<close> raises,
  \<open>TypeError\<close> what an operator raises on operands that do not define it,
  \<open>SystemExit\<close> is raised by the \<open>test\<close> subcommand, \<open>Raised\<close> stands for any other
  exception that comes out of a collaborator.
\<close>

text \<open>
  Modelled from the spec: the constructor \<open>EngineLoadError p fault\<close> is the LoadError of
  the engine, whose class is not among the sources: "malformed input document,
  unreadable file, ...; surfaced to the caller with the offending path" (section 7).
  It carries the offending file \<open>p\<close> and the fault its message describes.
\<close>

datatype error =
    AttributeError
  | TypeError
  | SystemExit int
  | EngineLoadError path string
  | Raised string

text \<open>
  The two ways the module calls \<open>Erddap.to_xml\<close>: \<open>to_xml(local_repo_path)\<close> in
  \<open>sync\<close> (one positional argument) and \<open>to_xml(output=..., secrets=...)\<close> in \<open>save\<close>.
\<close>

datatype to_xml_args =
    Positional string
  | Keywords string secrets

text \<open>
  The calls the front end makes on its collaborators, in the order it makes them.
  \<open>'r\<close> is the state of an \<open>Erddap\<close> object.
\<close>

datatype 'r call =
    Construct string "bool option"
  | CloneFrom "string option" path
  | OpenRepo path
  | Checkout "string option"
  | Copy 'r
  | Pull
  | Load 'r
  | Diff 'r 'r
  | ToXml 'r to_xml_args
  | WriteText path string
  | PytestMain "string list"

text \<open>The dictionary \<open>ctx.obj\<close> as \<open>main\<close> fills it (lines 71-80).\<close>

record 'r ctx_obj =
  erddap :: "'r option"
  datasets_xml :: string
  datasets_d :: string
  recursive :: bool
  bigParentDirectory :: string

text \<open>
  The collaborators.  \<open>'w\<close> is the world outside the process (the file system and the
  git remotes), \<open>'r\<close> the state of an \<open>Erddap\<close> object, \<open>'d\<close> a per-dataset entry of a
  diff.  \<open>erddap_init src None\<close> is the constructor called without the \<open>recursive\<close>
  keyword.  \<open>erddap_copy\<close> returns the state of the new object, which later calls on
  the original do not change (the deep copy of the specification, section 4.2).
  \<open>erddap_load\<close> is the in-place reload: it returns the new state of the object.
  \<open>truthy\<close> is Python's truth value of a diff entry.  The keys of a diff are dataset
  identifiers, strings.
\<close>

record ('w, 'r, 'd) collab =
  logger_add :: "string \<Rightarrow> error option"
  path_exists :: "'w \<Rightarrow> path \<Rightarrow> bool"
  path_glob_all :: "'w \<Rightarrow> path \<Rightarrow> path list"
  path_write_text :: "path \<Rightarrow> string \<Rightarrow> 'w \<Rightarrow> error + 'w"
  str_format :: "string \<Rightarrow> 'r ctx_obj \<Rightarrow> error + string"
  erddap_init :: "string \<Rightarrow> bool option \<Rightarrow> 'w \<Rightarrow> error + 'r"
  erddap_copy :: "'r \<Rightarrow> 'r"
  erddap_load :: "'r \<Rightarrow> 'w \<Rightarrow> error + 'r"
  erddap_diff :: "'r \<Rightarrow> 'r \<Rightarrow> (string \<times> 'd) list"
  erddap_to_xml :: "'r \<Rightarrow> to_xml_args \<Rightarrow> 'w \<Rightarrow> error + 'w"
  truthy :: "'d \<Rightarrow> bool"
  repo_clone_from :: "string option \<Rightarrow> path \<Rightarrow> 'w \<Rightarrow> error + 'w"
  repo_open :: "path \<Rightarrow> 'w \<Rightarrow> error option"
  git_checkout :: "path \<Rightarrow> string option \<Rightarrow> 'w \<Rightarrow> error + 'w"
  git_pull :: "path \<Rightarrow> 'w \<Rightarrow> error + 'w"
  pytest_main :: "string list \<Rightarrow> 'w \<Rightarrow> int"

subsection \<open>Sequencing with exceptions\<close>

text \<open>
  A run of the front end threads the world and the list of collaborator calls made so
  far; an exception ends the run and keeps both as they were when it was raised.
\<close>

record ('w, 'r) process =
  world :: 'w
  calls :: "'r call list"

type_synonym ('w, 'r, 'a) prog = "('w, 'r) process \<Rightarrow> (error + 'a) \<times> ('w, 'r) process"

definition ret :: "'a \<Rightarrow> ('w, 'r, 'a) prog" where
  "ret x s = (Inr x, s)"

definition raise :: "error \<Rightarrow> ('w, 'r, 'a) prog" where
  "raise e s = (Inl e, s)"

definition lift :: "error + 'a \<Rightarrow> ('w, 'r, 'a) prog" where
  "lift r s = (r, s)"

definition thn :: "('w, 'r, 'a) prog \<Rightarrow> ('a \<Rightarrow> ('w, 'r, 'b) prog) \<Rightarrow> ('w, 'r, 'b) prog" where
  "thn m f s = (case m s of (Inl e, s') \<Rightarrow> (Inl e, s') | (Inr x, s') \<Rightarrow> f x s')"

text \<open>A call that changes the world, one that only reads it, and one that cannot fail.\<close>

definition effect :: "'r call \<Rightarrow> ('w \<Rightarrow> error + 'w) \<Rightarrow> ('w, 'r, unit) prog" where
  "effect cl op s =
     (case op (world s) of
        Inl e \<Rightarrow> (Inl e, s\<lparr>calls := calls s @ [cl]\<rparr>)
      | Inr w' \<Rightarrow> (Inr (), \<lparr>world = w', calls = calls s @ [cl]\<rparr>))"

definition query :: "'r call \<Rightarrow> ('w \<Rightarrow> error + 'a) \<Rightarrow> ('w, 'r, 'a) prog" where
  "query cl f s = (f (world s), s\<lparr>calls := calls s @ [cl]\<rparr>)"

definition pure_call :: "'r call \<Rightarrow> 'a \<Rightarrow> ('w, 'r, 'a) prog" where
  "pure_call cl x s = (Inr x, s\<lparr>calls := calls s @ [cl]\<rparr>)"

definition option_error :: "error option \<Rightarrow> error + unit" where
  "option_error r = (case r of None \<Rightarrow> Inr () | Some e \<Rightarrow> Inl e)"

subsection \<open>The group callback \<open>main\<close> (lines 45-80)\<close>

record main_args =
  arg_datasets_xml :: string
  arg_datasets_d :: string
  arg_recursive :: bool
  arg_big_parent_directory :: string
  arg_log_level :: string

text \<open>
  Lines 60-68: a non-empty \<open>datasets_d\<close> is truthy and selects the glob; otherwise the
  monolithic file is loaded if it exists; otherwise \<open>erddap\<close> is \<open>None\<close>.
\<close>

definition load_erddap :: "('w, 'r, 'd) collab \<Rightarrow> main_args \<Rightarrow> ('w, 'r, 'r option) prog" where
  "load_erddap c a =
     (if arg_datasets_d a \<noteq> []
      then thn (query (Construct (arg_datasets_d a) (Some (arg_recursive a)))
                  (erddap_init c (arg_datasets_d a) (Some (arg_recursive a))))
             (\<lambda>e. ret (Some e))
      else (\<lambda>s. if path_exists c (world s) (arg_datasets_xml a)
                then thn (query (Construct (arg_datasets_xml a) None)
                            (erddap_init c (arg_datasets_xml a) None))
                       (\<lambda>e. ret (Some e)) s
                else ret None s))"

text \<open>Lines 71-80: what \<open>ctx.obj.update\<close> stores.\<close>

definition ctx_of :: "main_args \<Rightarrow> 'r option \<Rightarrow> 'r ctx_obj" where
  "ctx_of a e =
     \<lparr>erddap = e,
      datasets_xml = arg_datasets_xml a,
      datasets_d = arg_datasets_d a,
      recursive = arg_recursive a,
      bigParentDirectory = arg_big_parent_directory a\<rparr>"

definition main :: "('w, 'r, 'd) collab \<Rightarrow> main_args \<Rightarrow> ('w, 'r, 'r ctx_obj) prog" where
  "main c a =
     thn (lift (option_error (logger_add c (arg_log_level a)))) (\<lambda>_.
     thn (load_erddap c a) (\<lambda>e.
     ret (ctx_of a e)))"

subsection \<open>The subcommand \<open>save\<close> (lines 83-96)\<close>

text \<open>
  \<open>environ\<close> is \<open>os.environ.items()\<close>.  The secrets are the entries whose key starts
  with the prefix; \<open>ctx.obj["erddap"].to_xml\<close> on \<open>None\<close> raises \<open>AttributeError\<close>.
\<close>

definition secret_prefix :: string where
  "secret_prefix = ''ERDDAP_SECRET_''"

definition env_secrets :: "secrets \<Rightarrow> secrets" where
  "env_secrets environ = filter (\<lambda>(key, val). prefix secret_prefix key) environ"

definition save :: "('w, 'r, 'd) collab \<Rightarrow> 'r ctx_obj \<Rightarrow> secrets \<Rightarrow> string \<Rightarrow> ('w, 'r, unit) prog" where
  "save c obj environ output =
     (let secrets = env_secrets environ in
      thn (lift (str_format c output obj)) (\<lambda>output'.
      case erddap obj of
        None \<Rightarrow> raise AttributeError
      | Some e \<Rightarrow> effect (ToXml e (Keywords output' secrets))
                    (erddap_to_xml c e (Keywords output' secrets))))"

subsection \<open>The subcommand \<open>sync\<close> (lines 99-160)\<close>

record sync_args =
  repo :: "string option"
  branch :: "string option"
  local_repo_path :: string
  hard_flag :: bool
  hard_flag_dir :: string

text \<open>
  Lines 129-131: the repository is cloned when the local path does not exist or holds
  no entry.
\<close>

definition repo_missing :: "('w, 'r, 'd) collab \<Rightarrow> 'w \<Rightarrow> path \<Rightarrow> bool" where
  "repo_missing c w p = (\<not> path_exists c w p \<or> path_glob_all c w p = [])"

definition open_repo :: "('w, 'r, 'd) collab \<Rightarrow> sync_args \<Rightarrow> ('w, 'r, unit) prog" where
  "open_repo c a s =
     (if repo_missing c (world s) (local_repo_path a)
      then effect (CloneFrom (repo a) (local_repo_path a))
             (repo_clone_from c (repo a) (local_repo_path a)) s
      else query (OpenRepo (local_repo_path a))
             (\<lambda>w. option_error (repo_open c (local_repo_path a) w)) s)"

text \<open>
  Line 158: \<open>hard_flag_dir\<close> is the \<open>str\<close> that \<open>str.format\<close> returned on line 127 and
  \<open>datasetID\<close> is a key of the diff, a \<open>str\<close>; \<open>str\<close> defines no \<open>/\<close> operator, so
  \<open>hard_flag_dir / datasetID\<close> raises \<open>TypeError\<close>.
\<close>

definition str_truediv :: "string \<Rightarrow> string \<Rightarrow> error + path" where
  "str_truediv l r = Inl TypeError"

text \<open>Lines 155-158: the loop runs over every item of the diff.\<close>

fun hard_flags :: "('w, 'r, 'd) collab \<Rightarrow> string \<Rightarrow> (string \<times> 'd) list \<Rightarrow> ('w, 'r, unit) prog" where
  "hard_flags c dir [] = ret ()"
| "hard_flags c dir ((datasetID, datasetDiff) # items) =
     thn (thn (lift (str_truediv dir datasetID))
            (\<lambda>p. effect (WriteText p []) (path_write_text c p [])))
       (\<lambda>_. hard_flags c dir items)"

definition any_values :: "('w, 'r, 'd) collab \<Rightarrow> (string \<times> 'd) list \<Rightarrow> bool" where
  "any_values c diff = list_ex (\<lambda>(datasetID, datasetDiff). truthy c datasetDiff) diff"

definition sync :: "('w, 'r, 'd) collab \<Rightarrow> 'r ctx_obj \<Rightarrow> sync_args \<Rightarrow> ('w, 'r, unit) prog" where
  "sync c obj a =
     thn (lift (str_format c (hard_flag_dir a) obj)) (\<lambda>hard_flag_dir'.
     thn (open_repo c a) (\<lambda>_.
     thn (effect (Checkout (branch a)) (git_checkout c (local_repo_path a) (branch a))) (\<lambda>_.
     thn (case erddap obj of None \<Rightarrow> raise AttributeError | Some e \<Rightarrow> ret e) (\<lambda>e.
     thn (pure_call (Copy e) (erddap_copy c e)) (\<lambda>intial_erddap.
     thn (effect Pull (git_pull c (local_repo_path a))) (\<lambda>_.
     thn (query (Load e) (erddap_load c e)) (\<lambda>e'.
     thn (pure_call (Diff e' intial_erddap) (erddap_diff c e' intial_erddap)) (\<lambda>diff.
     thn (if any_values c diff
          then effect (ToXml e' (Positional (local_repo_path a)))
                 (erddap_to_xml c e' (Positional (local_repo_path a)))
          else ret ()) (\<lambda>_.
     if hard_flag a then hard_flags c hard_flag_dir' diff else ret ())))))))))"

subsection \<open>The subcommand \<open>test\<close> (lines 163-179)\<close>

definition test_args :: "string option \<Rightarrow> string list" where
  "test_args test_filter =
     (case test_filter of
        None \<Rightarrow> [''--pyargs'', ''erddap_deploy'']
      | Some k \<Rightarrow> if k \<noteq> [] then [''--pyargs'', ''erddap_deploy'', ''-k'', k]
                  else [''--pyargs'', ''erddap_deploy''])"

definition test :: "('w, 'r, 'd) collab \<Rightarrow> string option \<Rightarrow> ('w, 'r, unit) prog" where
  "test c test_filter =
     thn (\<lambda>s. pure_call (PytestMain (test_args test_filter))
                (pytest_main c (test_args test_filter) (world s)) s) (\<lambda>result.
     if result \<noteq> 0 then raise (SystemExit result) else ret ())"

subsection \<open>A run of the command line\<close>

text \<open>
  click runs the group callback, then the subcommand named on the command line.
\<close>

datatype command =
    Save string
  | Sync sync_args
  | Test "string option"

definition cli :: "('w, 'r, 'd) collab \<Rightarrow> main_args \<Rightarrow> secrets \<Rightarrow> command \<Rightarrow> ('w, 'r, unit) prog" where
  "cli c a environ cmd =
     thn (main c a) (\<lambda>obj.
       case cmd of
         Save output \<Rightarrow> save c obj environ output
       | Sync sa \<Rightarrow> sync c obj sa
       | Test k \<Rightarrow> test c k)"

text \<open>
  How the process ends.  A normal return gives status 0.  \<open>SystemExit n\<close> gives the low
  eight bits of \<open>n\<close> and prints nothing.  Any other exception that leaves the program is
  uncaught: the interpreter prints its traceback and its message on stderr and the
  status is 1.
\<close>

fun exit_status :: "error + 'a \<Rightarrow> int" where
  "exit_status (Inr _) = 0"
| "exit_status (Inl (SystemExit n)) = n mod 256"
| "exit_status (Inl _) = 1"

fun uncaught :: "error + 'a \<Rightarrow> error option" where
  "uncaught (Inr _) = None"
| "uncaught (Inl (SystemExit n)) = None"
| "uncaught (Inl e) = Some e"

definition start :: "'w \<Rightarrow> ('w, 'r) process" where
  "start w = \<lparr>world = w, calls = []\<rparr>"


section \<open>The registry engine (module erddap\_deploy.erddap)\<close>

text \<open>
  The class \<open>Erddap\<close> is imported by the front end and is not among the sources.  Every
  definition of this section is modelled from the specification (sections 3, 4, 7 and
  9) and says which sentences it follows.  The specification gives no grammar for the
  bytes of a document, so the grammar is a parameter \<open>g\<close>: a parser from bytes to
  document trees and a printer from trees to bytes, over any type \<open>'b\<close> of bytes.
\<close>

subsection \<open>Data model (specification, section 3)\<close>

text \<open>
  Modelled from the spec: the attribute values of the missing class, "a tagged union
  over scalar string, numeric, nested block, ordered list of blocks" (section 9).
  Equality of values is structural.
\<close>

datatype attr_value =
    Scalar string
  | Numeric int
  | Block "(string \<times> attr_value) list"
  | Blocks "(string \<times> attr_value) list list"

text \<open>
  Modelled from the spec: the Dataset of the missing class, with "a unique identifier
  (string key), an ordered mapping of configuration attributes, and a type
  discriminator".
\<close>

record dataset =
  dataset_id :: string
  dataset_type :: string
  attributes :: "(string \<times> attr_value) list"

text \<open>
  Modelled from the spec: the provenance of a Registry of the missing class, "where it
  was loaded from (single file vs. fragment set)"; a fragment set is a glob pattern,
  "optionally recursive".
\<close>

datatype provenance =
    SingleFile path
  | FragmentSet string bool

text \<open>
  Modelled from the spec: the Registry of the missing class, "an ordered sequence of
  Dataset entries, a mapping of top-level server settings, provenance".
\<close>

record registry =
  datasets :: "dataset list"
  settings :: "(string \<times> string) list"
  loaded_from :: provenance

text \<open>
  Modelled from the spec: the "normalized document tree" the missing Loader produces
  from one file, its "dataset blocks and top-level settings" (sections 2 and 4.1).
\<close>

record document =
  doc_settings :: "(string \<times> string) list"
  doc_datasets :: "dataset list"

text \<open>
  Modelled from the spec: the document grammar of the missing parser and printer, which
  "both encode the same dataset-block grammar" (section 6).  The parser returns \<open>None\<close>
  on "malformed document syntax".
\<close>

record 'b grammar =
  parse_document :: "'b \<Rightarrow> document option"
  print_document :: "document \<Rightarrow> 'b"

text \<open>
  Modelled from the spec: the files the missing engine reads and writes, a path naming
  at most one file and its bytes.
\<close>

type_synonym 'b file_system = "path \<Rightarrow> 'b option"

text \<open>
  Modelled from the spec: the LoadError of the missing Loader, "surfaced to the caller
  with the offending path" (section 7).
\<close>

datatype load_error = LoadError path

text \<open>
  Modelled from the spec: the identifiers of a Registry of the missing class, in the
  order of its datasets.
\<close>

definition dataset_ids :: "registry \<Rightarrow> string list" where
  "dataset_ids r = map dataset_id (datasets r)"

subsection \<open>Document Loader (specification, section 4.1)\<close>

text \<open>
  Modelled from the spec: the attribute merge of the missing Loader, "attributes of a
  dataset seen again are merged key-by-key with the later fragment's value winning per
  key".  A key already present keeps its place, a new key goes last.
\<close>

definition merge_attributes :: "(string \<times> 'v) list \<Rightarrow> (string \<times> 'v) list \<Rightarrow> (string \<times> 'v) list" where
  "merge_attributes old new = fold (\<lambda>(k, v). AList.update k v) new old"

text \<open>
  Modelled from the spec: the fold of one dataset block by the missing Loader, "unseen
  identifiers are inserted preserving first-seen order", a dataset seen again is
  "mutated in place".  The spec does not say which type discriminator a dataset seen
  again keeps; the later one is taken, as for attribute values.
\<close>

fun fold_block :: "dataset \<Rightarrow> dataset list \<Rightarrow> dataset list" where
  "fold_block b [] = [b\<lparr>attributes := merge_attributes [] (attributes b)\<rparr>]"
| "fold_block b (d # ds) =
     (if dataset_id d = dataset_id b
      then d\<lparr>dataset_type := dataset_type b,
             attributes := merge_attributes (attributes d) (attributes b)\<rparr> # ds
      else d # fold_block b ds)"

text \<open>
  Modelled from the spec: the fold of one document by the missing Loader, "extract its
  dataset blocks and top-level settings, and fold them into the accumulating Registry".
\<close>

definition fold_document ::
  "document \<Rightarrow> dataset list \<times> (string \<times> string) list \<Rightarrow> dataset list \<times> (string \<times> string) list" where
  "fold_document doc acc =
     (fold fold_block (doc_datasets doc) (fst acc), merge_attributes (snd acc) (doc_settings doc))"

text \<open>
  Modelled from the spec: the parsing of the candidates by the missing Loader,
  "malformed document syntax is a fatal load error naming the offending file"; an
  unreadable file is a LoadError too (section 7).
\<close>

fun parse_all :: "'b grammar \<Rightarrow> 'b file_system \<Rightarrow> path list \<Rightarrow> load_error + document list" where
  "parse_all g fs [] = Inr []"
| "parse_all g fs (p # ps) =
     (case fs p of
        None \<Rightarrow> Inl (LoadError p)
      | Some bytes \<Rightarrow>
          (case parse_document g bytes of
             None \<Rightarrow> Inl (LoadError p)
           | Some doc \<Rightarrow>
               (case parse_all g fs ps of Inl e \<Rightarrow> Inl e | Inr docs \<Rightarrow> Inr (doc # docs))))"

text \<open>
  Modelled from the spec: the merge of the missing Loader, "the glob must resolve to a
  deterministic, sorted list of candidate files before merging" (lexicographic path
  order).  \<open>listing\<close> is what the file system returns for the glob, in whatever order it
  enumerates its entries; no match gives the empty Registry, which is not an error.
\<close>

definition load_files ::
  "'b grammar \<Rightarrow> 'b file_system \<Rightarrow> path list \<Rightarrow>
   load_error + dataset list \<times> (string \<times> string) list" where
  "load_files g fs listing =
     (case parse_all g fs (sort listing) of
        Inl e \<Rightarrow> Inl e
      | Inr docs \<Rightarrow> Inr (fold fold_document docs ([], [])))"

text \<open>
  Modelled from the spec: the candidates of the missing Loader, "given either a single
  document path or a glob pattern (optionally recursive)"; \<open>glob\<close> is the file system's
  answer to a pattern.
\<close>

definition source_files :: "(string \<Rightarrow> bool \<Rightarrow> path list) \<Rightarrow> provenance \<Rightarrow> path list" where
  "source_files glob src = (case src of SingleFile p \<Rightarrow> [p] | FragmentSet g r \<Rightarrow> glob g r)"

text \<open>
  Modelled from the spec: the contract of the missing Loader, "produce a Registry" from
  the source, which the Registry keeps as its provenance.
\<close>

definition load ::
  "'b grammar \<Rightarrow> 'b file_system \<Rightarrow> (string \<Rightarrow> bool \<Rightarrow> path list) \<Rightarrow> provenance \<Rightarrow>
   load_error + registry" where
  "load g fs glob src =
     (case load_files g fs (source_files glob src) of
        Inl e \<Rightarrow> Inl e
      | Inr r \<Rightarrow> Inr \<lparr>datasets = fst r, settings = snd r, loaded_from = src\<rparr>)"

subsection \<open>Serializer (specification, section 4.5)\<close>

text \<open>
  Modelled from the spec: the tree the missing Serializer prints, which must preserve
  "dataset order exactly as stored in the Registry; attribute insertion order within
  each dataset; nested block structure".
\<close>

definition document_of :: "registry \<Rightarrow> document" where
  "document_of r = \<lparr>doc_settings = settings r, doc_datasets = datasets r\<rparr>"

text \<open>
  Modelled from the spec: the contract of the missing Serializer, "render(registry) ->
  document bytes".
\<close>

definition render :: "'b grammar \<Rightarrow> registry \<Rightarrow> 'b" where
  "render g r = print_document g (document_of r)"

subsection \<open>Diff Engine (specification, section 4.3)\<close>

text \<open>
  Modelled from the spec: the marking of a DatasetDiff of the missing Diff Engine,
  "total addition or removal", or a dataset present in both snapshots.
\<close>

datatype presence =
    FullyAdded
  | FullyRemoved
  | InBoth

text \<open>
  Modelled from the spec: the DatasetDiff of the missing Diff Engine, which "represents
  added attributes, removed attributes, changed attributes (old value, new value), and
  an overall changed boolean".
\<close>

record dataset_diff =
  presence :: presence
  added :: "(string \<times> attr_value) list"
  removed :: "(string \<times> attr_value) list"
  changed_attributes :: "(string \<times> attr_value \<times> attr_value) list"
  changed :: bool

text \<open>
  Modelled from the spec: the lookup of a dataset identifier in a snapshot by the
  missing Diff Engine.
\<close>

definition find_dataset :: "registry \<Rightarrow> string \<Rightarrow> dataset option" where
  "find_dataset r i = find (\<lambda>d. dataset_id d = i) (datasets r)"

text \<open>
  Modelled from the spec: the "key-wise value inequality" of the missing Diff Engine,
  over the keys both sides have; value comparison "is structural".
\<close>

definition changed_values ::
  "(string \<times> attr_value) list \<Rightarrow> (string \<times> attr_value) list \<Rightarrow> (string \<times> attr_value \<times> attr_value) list" where
  "changed_values old new =
     concat (map (\<lambda>k. case (map_of old k, map_of new k) of
                         (Some v, Some v') \<Rightarrow> if v = v' then [] else [(k, v, v')]
                       | _ \<Rightarrow> [])
               (remdups (map fst old)))"

text \<open>
  Modelled from the spec: the comparison of a dataset present in both snapshots by the
  missing Diff Engine, "the symmetric attribute-key difference plus key-wise value
  inequality", the flag being true "if any of the three sets is non-empty".
\<close>

definition diff_attributes :: "(string \<times> attr_value) list \<Rightarrow> (string \<times> attr_value) list \<Rightarrow> dataset_diff" where
  "diff_attributes old new =
     (let a = filter (\<lambda>(k, v). map_of old k = None) new;
          r = filter (\<lambda>(k, v). map_of new k = None) old;
          c = changed_values old new
      in \<lparr>presence = InBoth, added = a, removed = r, changed_attributes = c,
          changed = (a \<noteq> [] \<or> r \<noteq> [] \<or> c \<noteq> [])\<rparr>)"

text \<open>
  Modelled from the spec: the entry of one identifier in the missing Diff Engine, "if
  present only in one side, emit a DatasetDiff marking total addition or removal; if
  present in both, compute ...".  An identifier of neither side has no entry in the
  diff; the last case is there for totality.
\<close>

definition diff_dataset :: "dataset option \<Rightarrow> dataset option \<Rightarrow> dataset_diff" where
  "diff_dataset prev cur =
     (case (prev, cur) of
        (Some b, Some a) \<Rightarrow> diff_attributes (attributes b) (attributes a)
      | (Some b, None) \<Rightarrow>
          \<lparr>presence = FullyRemoved, added = [], removed = attributes b,
           changed_attributes = [], changed = True\<rparr>
      | (None, Some a) \<Rightarrow>
          \<lparr>presence = FullyAdded, added = attributes a, removed = [],
           changed_attributes = [], changed = True\<rparr>
      | (None, None) \<Rightarrow>
          \<lparr>presence = InBoth, added = [], removed = [], changed_attributes = [], changed = False\<rparr>)"

text \<open>
  Modelled from the spec: the contract of the missing Diff Engine, "diff(before, after)
  -> RegistryDiff": "compute the set union of dataset identifiers from both snapshots;
  for each identifier ...".  The RegistryDiff is the mapping from identifier to
  DatasetDiff, kept in the order before-then-after; \<open>prev\<close> is the "before" snapshot and
  \<open>cur\<close> the "after" one.
\<close>

definition diff :: "registry \<Rightarrow> registry \<Rightarrow> (string \<times> dataset_diff) list" where
  "diff prev cur =
     map (\<lambda>i. (i, diff_dataset (find_dataset prev i) (find_dataset cur i)))
       (remdups (dataset_ids prev @ dataset_ids cur))"

section \<open>Collaborators and inputs used in the examples\<close>

text \<open>
  A small world for the examples: the world is the revision of the fragment directory
  (a pull advances it), an \<open>Erddap\<close> object holds the identifiers it loaded, a diff
  entry is the flag "changed".
\<close>

definition demo_levels :: "string list" where
  "demo_levels = [''TRACE'', ''DEBUG'', ''INFO'', ''SUCCESS'', ''WARNING'', ''ERROR'', ''CRITICAL'']"

fun demo_datasets :: "nat \<Rightarrow> string list" where
  "demo_datasets 0 = [''buoy1'']"
| "demo_datasets (Suc n) = [''buoy1'', ''buoy2'']"

definition demo_diff :: "string list \<Rightarrow> string list \<Rightarrow> (string \<times> bool) list" where
  "demo_diff new old =
     map (\<lambda>i. (i, (i \<in> set new) \<noteq> (i \<in> set old))) (remdups (old @ new))"

definition demo :: "(nat, string list, bool) collab" where
  "demo = \<lparr>
     logger_add = (\<lambda>level. if level \<in> set demo_levels then None else Some (Raised ''ValueError'')),
     path_exists = (\<lambda>w p. p = ''erddap-datasets'' \<or> p = ''datasets.xml'' \<or> p = ''broken.xml''),
     path_glob_all = (\<lambda>w p. if p = ''erddap-datasets'' then [''erddap-datasets/datasets.d''] else []),
     path_write_text = (\<lambda>p t w. Inr w),
     str_format = (\<lambda>s obj. if s = ''{datasets_xml}'' then Inr (datasets_xml obj)
                    else if s = ''{bigParentDirectory}/erddap/hardFlag''
                    then Inr (bigParentDirectory obj @ ''/erddap/hardFlag'')
                    else Inr s),
     erddap_init = (\<lambda>src r w. if src = ''broken.xml''
                     then Inl (EngineLoadError ''broken.xml'' ''malformed document'')
                     else Inr (demo_datasets w)),
     erddap_copy = (\<lambda>e. e),
     erddap_load = (\<lambda>e w. Inr (demo_datasets w)),
     erddap_diff = demo_diff,
     erddap_to_xml = (\<lambda>e args w. Inr w),
     truthy = (\<lambda>d. d),
     repo_clone_from = (\<lambda>url p w. Inr w),
     repo_open = (\<lambda>p w. None),
     git_checkout = (\<lambda>p b w. Inr w),
     git_pull = (\<lambda>p w. Inr (Suc w)),
     pytest_main = (\<lambda>args w. 0)\<rparr>"

text \<open>The options at their defaults, and a \<open>sync\<close> of branch main into the default clone.\<close>

definition demo_args :: main_args where
  "demo_args =
     \<lparr>arg_datasets_xml = ''/usr/local/tomcat/content/erddap/datasets.xml'',
      arg_datasets_d = ''datasets.d/*.xml'',
      arg_recursive = True,
      arg_big_parent_directory = ''/erddapData'',
      arg_log_level = ''INFO''\<rparr>"

definition demo_sync :: "bool \<Rightarrow> sync_args" where
  "demo_sync flag =
     \<lparr>repo = Some ''https://example.org/datasets.git'',
      branch = Some ''main'',
      local_repo_path = ''erddap-datasets'',
      hard_flag = flag,
      hard_flag_dir = ''{bigParentDirectory}/erddap/hardFlag''\<rparr>"

text \<open>
  For the engine: the grammar whose bytes are the trees themselves, and the fragment
  directory of the specification's third scenario.
\<close>

definition tree_grammar :: "document grammar" where
  "tree_grammar = \<lparr>parse_document = Some, print_document = (\<lambda>doc. doc)\<rparr>"

definition buoy1_base :: dataset where
  "buoy1_base =
     \<lparr>dataset_id = ''buoy1'', dataset_type = ''EDDTableFromFiles'',
      attributes = [(''srcUrl'', Scalar ''http://a''), (''password'', Scalar ''changeme'')]\<rparr>"

definition buoy1_override :: dataset where
  "buoy1_override =
     \<lparr>dataset_id = ''buoy1'', dataset_type = ''EDDTableFromFiles'',
      attributes = [(''srcUrl'', Scalar ''http://b'')]\<rparr>"

definition buoy1_merged :: dataset where
  "buoy1_merged =
     \<lparr>dataset_id = ''buoy1'', dataset_type = ''EDDTableFromFiles'',
      attributes = [(''srcUrl'', Scalar ''http://b''), (''password'', Scalar ''changeme'')]\<rparr>"

definition fragments :: "document file_system" where
  "fragments =
     [''datasets.d/010-base.xml'' \<mapsto> \<lparr>doc_settings = [], doc_datasets = [buoy1_base]\<rparr>,
      ''datasets.d/020-override.xml'' \<mapsto> \<lparr>doc_settings = [], doc_datasets = [buoy1_override]\<rparr>]"

text \<open>Two snapshots for the diff: datasets x and y before, y and z after.\<close>

definition plain_dataset :: "string \<Rightarrow> dataset" where
  "plain_dataset i =
     \<lparr>dataset_id = i, dataset_type = ''EDDGridFromNcFiles'', attributes = [(''active'', Scalar ''true'')]\<rparr>"

definition snapshot_a :: registry where
  "snapshot_a = \<lparr>datasets = [plain_dataset ''x'', plain_dataset ''y''], settings = [],
     loaded_from = SingleFile ''datasets.xml''\<rparr>"

definition snapshot_b :: registry where
  "snapshot_b = \<lparr>datasets = [plain_dataset ''y'', plain_dataset ''z''], settings = [],
     loaded_from = SingleFile ''datasets.xml''\<rparr>"

section \<open>Properties of the front end\<close>

subsection \<open>Helper facts\<close>

lemmas demo_simps =
  demo_def demo_args_def demo_sync_def demo_levels_def demo_diff_def start_def ctx_of_def

lemma hard_flags_result:
  "hard_flags c dir items s = (if items = [] then Inr () else Inl TypeError, s)"
  by (cases items) (auto simp: ret_def thn_def lift_def str_truediv_def)

lemma open_repo_calls:
  "calls (snd (open_repo c a s)) =
     calls s @ [if repo_missing c (world s) (local_repo_path a)
                then CloneFrom (repo a) (local_repo_path a) else OpenRepo (local_repo_path a)]"
  by (simp add: open_repo_def effect_def query_def split: sum.splits)

lemma sync_calls:
  assumes "str_format c (hard_flag_dir a) obj = Inr dir"
    and "open_repo c a s = (Inr (), s1)"
    and "git_checkout c (local_repo_path a) (branch a) (world s1) = Inr w2"
    and "erddap obj = Some e"
    and "git_pull c (local_repo_path a) w2 = Inr w3"
    and "erddap_load c e w3 = Inr e'"
  shows "calls (snd (sync c obj a s)) =
           calls s1 @ [Checkout (branch a), Copy e, Pull, Load e, Diff e' (erddap_copy c e)] @
           (if any_values c (erddap_diff c e' (erddap_copy c e))
            then [ToXml e' (Positional (local_repo_path a))] else [])"
  using assms
  by (simp add: sync_def thn_def lift_def ret_def effect_def query_def pure_call_def
      hard_flags_result split: sum.splits)

lemma sync_world_unchanged:
  assumes "str_format c (hard_flag_dir a) obj = Inr dir"
    and "open_repo c a s = (Inr (), s1)"
    and "git_checkout c (local_repo_path a) (branch a) (world s1) = Inr w2"
    and "erddap obj = Some e"
    and "git_pull c (local_repo_path a) w2 = Inr w3"
    and "erddap_load c e w3 = Inr e'"
    and "\<not> any_values c (erddap_diff c e' (erddap_copy c e))"
  shows "world (snd (sync c obj a s)) = w3"
  using assms
  by (simp add: sync_def thn_def lift_def ret_def effect_def query_def pure_call_def
      hard_flags_result split: sum.splits)

lemma main_glob:
  assumes "logger_add c (arg_log_level a) = None" "arg_datasets_d a \<noteq> []"
  shows "main c a s =
     (case erddap_init c (arg_datasets_d a) (Some (arg_recursive a)) (world s) of
        Inl x \<Rightarrow> Inl x | Inr r \<Rightarrow> Inr (ctx_of a (Some r)),
      s\<lparr>calls := calls s @ [Construct (arg_datasets_d a) (Some (arg_recursive a))]\<rparr>)"
  using assms
  by (simp add: main_def load_erddap_def thn_def query_def ret_def lift_def option_error_def
      split: sum.splits)

lemma main_file:
  assumes "logger_add c (arg_log_level a) = None" "arg_datasets_d a = []"
    "path_exists c (world s) (arg_datasets_xml a)"
  shows "main c a s =
     (case erddap_init c (arg_datasets_xml a) None (world s) of
        Inl x \<Rightarrow> Inl x | Inr r \<Rightarrow> Inr (ctx_of a (Some r)),
      s\<lparr>calls := calls s @ [Construct (arg_datasets_xml a) None]\<rparr>)"
  using assms
  by (simp add: main_def load_erddap_def thn_def query_def ret_def lift_def option_error_def
      split: sum.splits)

lemma main_none:
  assumes "logger_add c (arg_log_level a) = None" "arg_datasets_d a = []"
    "\<not> path_exists c (world s) (arg_datasets_xml a)"
  shows "main c a s = (Inr (ctx_of a None), s)"
  using assms
  by (simp add: main_def load_erddap_def thn_def query_def ret_def lift_def option_error_def)

lemma save_None: "erddap obj = None \<Longrightarrow> \<exists>x. fst (save c obj environ output s) = Inl x"
  by (simp add: save_def thn_def lift_def raise_def Let_def split: sum.splits prod.splits)

lemma sync_None: "erddap obj = None \<Longrightarrow> \<exists>x. fst (sync c obj a s) = Inl x"
  by (simp add: sync_def thn_def lift_def raise_def split: sum.splits prod.splits)

lemma erddap_ctx_of [simp]: "erddap (ctx_of a e) = e"
  by (simp add: ctx_of_def)

lemma set_env_secrets:
  "set (env_secrets environ) = {(k, v). (k, v) \<in> set environ \<and> prefix ''ERDDAP_SECRET_'' k}"
  by (auto simp: env_secrets_def secret_prefix_def)

lemma cli_main_Inl: "main c a s = (Inl x, s') \<Longrightarrow> cli c a environ cmd s = (Inl x, s')"
  by (simp add: cli_def thn_def)

lemma cli_main_Inr:
  "main c a s = (Inr obj, s') \<Longrightarrow>
   cli c a environ cmd s =
     (case cmd of Save output \<Rightarrow> save c obj environ output s'
      | Sync sa \<Rightarrow> sync c obj sa s' | Test k \<Rightarrow> test c k s')"
  by (simp add: cli_def thn_def split: command.splits)

subsection \<open>Source selection in \<open>main\<close>\<close>

text \<open>
  Claim C9.  The fragment glob has strict precedence.  Once the log sink is configured:
  when \<open>datasets_d\<close> is a non-empty string the only constructor call is the one on the
  glob, with the \<open>recursive\<close> flag, whether or not the monolithic file exists; the
  monolithic path is constructed (without the flag) only when \<open>datasets_d\<close> is empty and
  the file exists; otherwise no constructor is called, the context holds \<open>erddap = None\<close>,
  and \<open>save\<close> and \<open>sync\<close>, the subcommands that dereference it, end with an exception
  whatever their arguments.
\<close>

theorem main_source_selection:
  assumes "logger_add c (arg_log_level a) = None"
  shows "(arg_datasets_d a \<noteq> [] \<longrightarrow>
            main c a s =
              (case erddap_init c (arg_datasets_d a) (Some (arg_recursive a)) (world s) of
                 Inl x \<Rightarrow> Inl x | Inr r \<Rightarrow> Inr (ctx_of a (Some r)),
               s\<lparr>calls := calls s @ [Construct (arg_datasets_d a) (Some (arg_recursive a))]\<rparr>)) \<and>
         (arg_datasets_d a = [] \<and> path_exists c (world s) (arg_datasets_xml a) \<longrightarrow>
            main c a s =
              (case erddap_init c (arg_datasets_xml a) None (world s) of
                 Inl x \<Rightarrow> Inl x | Inr r \<Rightarrow> Inr (ctx_of a (Some r)),
               s\<lparr>calls := calls s @ [Construct (arg_datasets_xml a) None]\<rparr>)) \<and>
         (arg_datasets_d a = [] \<and> \<not> path_exists c (world s) (arg_datasets_xml a) \<longrightarrow>
            main c a s = (Inr (ctx_of a None), s) \<and>
            (\<forall>environ output t. \<exists>x. fst (save c (ctx_of a None) environ output t) = Inl x) \<and>
            (\<forall>sa t. \<exists>x. fst (sync c (ctx_of a None) sa t) = Inl x))"
  using assms main_glob [of c a s] main_file [of c a s] main_none [of c a s]
    save_None [of "ctx_of a None" c] sync_None [of "ctx_of a None" c]
  by simp

theorem main_source_selection_witness:
  "logger_add demo (arg_log_level demo_args) = None \<and>
   main demo demo_args (start 0) =
     (Inr (ctx_of demo_args (Some [''buoy1''])),
      \<lparr>world = 0, calls = [Construct ''datasets.d/*.xml'' (Some True)]\<rparr>) \<and>
   main demo (demo_args\<lparr>arg_datasets_d := [], arg_datasets_xml := ''datasets.xml''\<rparr>) (start 0) =
     (Inr (ctx_of (demo_args\<lparr>arg_datasets_d := [], arg_datasets_xml := ''datasets.xml''\<rparr>)
             (Some [''buoy1''])),
      \<lparr>world = 0, calls = [Construct ''datasets.xml'' None]\<rparr>) \<and>
   main demo (demo_args\<lparr>arg_datasets_d := []\<rparr>) (start 0) =
     (Inr (ctx_of (demo_args\<lparr>arg_datasets_d := []\<rparr>) None), start 0) \<and>
   (\<exists>x. fst (save demo (ctx_of (demo_args\<lparr>arg_datasets_d := []\<rparr>) None) []
              ''{datasets_xml}'' (start 0)) = Inl x) \<and>
   (\<exists>x. fst (sync demo (ctx_of (demo_args\<lparr>arg_datasets_d := []\<rparr>) None) (demo_sync False)
              (start 0)) = Inl x)"
  using main_source_selection [of demo demo_args "start 0"]
    main_source_selection [of demo "demo_args\<lparr>arg_datasets_d := [], arg_datasets_xml := ''datasets.xml''\<rparr>" "start 0"]
    main_source_selection [of demo "demo_args\<lparr>arg_datasets_d := []\<rparr>" "start 0"]
  by (simp add: demo_simps)

subsection \<open>Secrets in \<open>save\<close>\<close>

text \<open>
  What \<open>save\<close> hands to the engine.  When the output path formats and the context holds
  an \<open>Erddap\<close> object, \<open>save\<close> makes exactly one collaborator call,
  \<open>to_xml(output=..., secrets=...)\<close>, whose secrets are exactly the entries of the process
  environment whose name starts with \<open>ERDDAP_SECRET_\<close>; the run depends on the
  environment only through these entries.  What the engine itself reads is decided in
  the class \<open>Erddap\<close>, not in this module, and is no part of the statement.
\<close>

lemma save_passes_prefixed_environment:
  assumes "str_format c output obj = Inr out" and "erddap obj = Some e"
  shows "save c obj environ output s =
           (case erddap_to_xml c e (Keywords out (env_secrets environ)) (world s) of
              Inl x \<Rightarrow> (Inl x, s\<lparr>calls := calls s @ [ToXml e (Keywords out (env_secrets environ))]\<rparr>)
            | Inr w \<Rightarrow> (Inr (), \<lparr>world = w,
                         calls = calls s @ [ToXml e (Keywords out (env_secrets environ))]\<rparr>)) \<and>
         set (env_secrets environ) =
           {(k, v). (k, v) \<in> set environ \<and> prefix ''ERDDAP_SECRET_'' k} \<and>
         (\<forall>environ'. env_secrets environ' = env_secrets environ \<longrightarrow>
            save c obj environ' output s = save c obj environ output s)"
  using assms
  by (simp add: save_def thn_def lift_def effect_def Let_def set_env_secrets split: sum.splits)

subsection \<open>Order of operations in \<open>sync\<close>\<close>

text \<open>
  Claim C6.  In a run of \<open>sync\<close> in which the repository opens, the checkout and the
  pull succeed and the reload returns, the calls after the repository is opened begin
  with: checkout of the branch, copy of the \<open>Erddap\<close> object as \<open>main\<close> built it, pull,
  reload of the object, and the diff of the reloaded object against the copy taken
  before the pull.  The reload reads the world the pull left (\<open>w3\<close>), which is the
  checkout's world (\<open>w2\<close>) advanced by the pull.
\<close>

theorem sync_pull_before_reload:
  assumes "str_format c (hard_flag_dir a) obj = Inr dir"
    and "open_repo c a s = (Inr (), s1)"
    and "git_checkout c (local_repo_path a) (branch a) (world s1) = Inr w2"
    and "erddap obj = Some e"
    and "git_pull c (local_repo_path a) w2 = Inr w3"
    and "erddap_load c e w3 = Inr e'"
  shows "take 5 (drop (length (calls s1)) (calls (snd (sync c obj a s)))) =
           [Checkout (branch a), Copy e, Pull, Load e, Diff e' (erddap_copy c e)]"
  using sync_calls [OF assms] by simp

theorem sync_pull_before_reload_witness:
  "str_format demo (hard_flag_dir (demo_sync False)) (ctx_of demo_args (Some [''buoy1''])) =
     Inr ''/erddapData/erddap/hardFlag'' \<and>
   open_repo demo (demo_sync False) (start 0) =
     (Inr (), \<lparr>world = 0, calls = [OpenRepo ''erddap-datasets'']\<rparr>) \<and>
   git_checkout demo ''erddap-datasets'' (Some ''main'') 0 = Inr 0 \<and>
   git_pull demo ''erddap-datasets'' 0 = Inr 1 \<and>
   erddap_load demo [''buoy1''] 1 = Inr [''buoy1'', ''buoy2''] \<and>
   take 5 (drop 1 (calls (snd (sync demo (ctx_of demo_args (Some [''buoy1''])) (demo_sync False)
       (start 0))))) =
     [Checkout (Some ''main''), Copy [''buoy1''], Pull, Load [''buoy1''],
      Diff [''buoy1'', ''buoy2''] [''buoy1'']]"
  using sync_pull_before_reload [of demo "demo_sync False" "ctx_of demo_args (Some [''buoy1''])"
      "''/erddapData/erddap/hardFlag''" "start 0"
      "\<lparr>world = 0, calls = [OpenRepo ''erddap-datasets'']\<rparr>" 0 "[''buoy1'']" 1
      "[''buoy1'', ''buoy2'']"]
  by (simp add: demo_simps open_repo_def repo_missing_def query_def option_error_def)

subsection \<open>Serialization in \<open>sync\<close>\<close>

text \<open>
  Claim C10.  In a run of \<open>sync\<close> that reaches the diff, \<open>to_xml\<close> is called, as the one
  call after the diff, exactly when some entry of the diff is truthy; when every entry is
  falsy nothing is called after the diff and the world stays as the pull left it.
\<close>

theorem sync_serializes_iff_diff_truthy:
  assumes "str_format c (hard_flag_dir a) obj = Inr dir"
    and "open_repo c a s = (Inr (), s1)"
    and "git_checkout c (local_repo_path a) (branch a) (world s1) = Inr w2"
    and "erddap obj = Some e"
    and "git_pull c (local_repo_path a) w2 = Inr w3"
    and "erddap_load c e w3 = Inr e'"
  shows "(list_ex (\<lambda>(datasetID, datasetDiff). truthy c datasetDiff)
            (erddap_diff c e' (erddap_copy c e)) \<longrightarrow>
          calls (snd (sync c obj a s)) =
            calls s1 @ [Checkout (branch a), Copy e, Pull, Load e, Diff e' (erddap_copy c e),
                        ToXml e' (Positional (local_repo_path a))]) \<and>
         (\<not> list_ex (\<lambda>(datasetID, datasetDiff). truthy c datasetDiff)
              (erddap_diff c e' (erddap_copy c e)) \<longrightarrow>
          calls (snd (sync c obj a s)) =
            calls s1 @ [Checkout (branch a), Copy e, Pull, Load e, Diff e' (erddap_copy c e)] \<and>
          world (snd (sync c obj a s)) = w3)"
  using sync_calls [OF assms] sync_world_unchanged [OF assms]
  by (simp add: any_values_def)

theorem sync_serializes_iff_diff_truthy_witness:
  "open_repo demo (demo_sync False) (start 0) =
     (Inr (), \<lparr>world = 0, calls = [OpenRepo ''erddap-datasets'']\<rparr>) \<and>
   erddap_diff demo [''buoy1'', ''buoy2''] [''buoy1''] = [(''buoy1'', False), (''buoy2'', True)] \<and>
   calls (snd (sync demo (ctx_of demo_args (Some [''buoy1''])) (demo_sync False) (start 0))) =
     [OpenRepo ''erddap-datasets'', Checkout (Some ''main''), Copy [''buoy1''], Pull,
      Load [''buoy1''], Diff [''buoy1'', ''buoy2''] [''buoy1''],
      ToXml [''buoy1'', ''buoy2''] (Positional ''erddap-datasets'')] \<and>
   open_repo demo (demo_sync False) (start 1) =
     (Inr (), \<lparr>world = 1, calls = [OpenRepo ''erddap-datasets'']\<rparr>) \<and>
   erddap_diff demo [''buoy1'', ''buoy2''] [''buoy1'', ''buoy2''] =
     [(''buoy1'', False), (''buoy2'', False)] \<and>
   calls (snd (sync demo (ctx_of demo_args (Some [''buoy1'', ''buoy2''])) (demo_sync False)
      (start 1))) =
     [OpenRepo ''erddap-datasets'', Checkout (Some ''main''), Copy [''buoy1'', ''buoy2''], Pull,
      Load [''buoy1'', ''buoy2''], Diff [''buoy1'', ''buoy2''] [''buoy1'', ''buoy2'']] \<and>
   world (snd (sync demo (ctx_of demo_args (Some [''buoy1'', ''buoy2''])) (demo_sync False)
      (start 1))) = 2"
  using sync_serializes_iff_diff_truthy [of demo "demo_sync False"
      "ctx_of demo_args (Some [''buoy1''])" "''/erddapData/erddap/hardFlag''" "start 0"
      "\<lparr>world = 0, calls = [OpenRepo ''erddap-datasets'']\<rparr>" 0 "[''buoy1'']" 1
      "[''buoy1'', ''buoy2'']"]
    sync_serializes_iff_diff_truthy [of demo "demo_sync False"
      "ctx_of demo_args (Some [''buoy1'', ''buoy2''])" "''/erddapData/erddap/hardFlag''" "start 1"
      "\<lparr>world = 1, calls = [OpenRepo ''erddap-datasets'']\<rparr>" 1 "[''buoy1'', ''buoy2'']" 2
      "[''buoy1'', ''buoy2'']"]
  by (simp add: demo_simps open_repo_def repo_missing_def query_def option_error_def numeral_2_eq_2)

subsection \<open>Hard flags in \<open>sync\<close>\<close>

text \<open>
  Claim C5.  The claim is that with the hard-flag option one empty marker file is written
  per changed dataset and none for an unchanged one (the option's help text reads
  "Generate Hard flag for modified datasets").  The code does not do that: in a run of
  \<open>sync\<close> with the option set that reaches the loop with a non-empty diff, the first
  iteration raises \<open>TypeError\<close> (line 158 divides a \<open>str\<close> by a \<open>str\<close>), so the run ends
  with that exception and no marker file is written; besides, the loop of lines 155-158
  ranges over every item of the diff and never looks at the entry.
\<close>

theorem sync_hard_flag_raises:
  assumes "str_format c (hard_flag_dir a) obj = Inr dir"
    and "open_repo c a s = (Inr (), s1)"
    and "git_checkout c (local_repo_path a) (branch a) (world s1) = Inr w2"
    and "erddap obj = Some e"
    and "git_pull c (local_repo_path a) w2 = Inr w3"
    and "erddap_load c e w3 = Inr e'"
    and "erddap_to_xml c e' (Positional (local_repo_path a)) w3 = Inr w4"
    and "hard_flag a"
    and "erddap_diff c e' (erddap_copy c e) \<noteq> []"
  shows "fst (sync c obj a s) = Inl TypeError \<and>
         list_all (\<lambda>cl. case cl of WriteText p t \<Rightarrow> False | _ \<Rightarrow> True)
           (drop (length (calls s1)) (calls (snd (sync c obj a s))))"
proof -
  have "fst (sync c obj a s) = Inl TypeError"
    using assms
    by (simp add: sync_def thn_def lift_def ret_def effect_def query_def pure_call_def
        hard_flags_result split: sum.splits)
  moreover have "list_all (\<lambda>cl. case cl of WriteText p t \<Rightarrow> False | _ \<Rightarrow> True)
           (drop (length (calls s1)) (calls (snd (sync c obj a s))))"
    using sync_calls [OF assms(1-6)] by simp
  ultimately show ?thesis by simp
qed

theorem sync_hard_flag_raises_witness:
  "hard_flag (demo_sync True) \<and>
   erddap_diff demo [''buoy1'', ''buoy2''] [''buoy1''] = [(''buoy1'', False), (''buoy2'', True)] \<and>
   cli demo demo_args [] (Sync (demo_sync True)) (start 0) =
     (Inl TypeError,
      \<lparr>world = 1,
       calls = [Construct ''datasets.d/*.xml'' (Some True), OpenRepo ''erddap-datasets'',
                Checkout (Some ''main''), Copy [''buoy1''], Pull, Load [''buoy1''],
                Diff [''buoy1'', ''buoy2''] [''buoy1''],
                ToXml [''buoy1'', ''buoy2''] (Positional ''erddap-datasets'')]\<rparr>)"
  using sync_hard_flag_raises [of demo "demo_sync True"
      "ctx_of demo_args (Some [''buoy1''])" "''/erddapData/erddap/hardFlag''" "start 0"
      "\<lparr>world = 0, calls = [OpenRepo ''erddap-datasets'']\<rparr>" 0 "[''buoy1'']" 1
      "[''buoy1'', ''buoy2'']" 1]
  by (simp add: demo_simps cli_def main_def load_erddap_def sync_def thn_def lift_def ret_def
      effect_def query_def pure_call_def option_error_def open_repo_def repo_missing_def
      any_values_def str_truediv_def)

subsection \<open>Load failures\<close>

text \<open>
  Claim C8, as amended.  When the constructor of \<open>Erddap\<close> raises the engine's LoadError
  on the selected source (a malformed document or any other load error, for file \<open>p\<close>
  with fault \<open>fault\<close>), the run ends with that exception after that one call: no
  subcommand runs, the exit status is 1, and the exception the interpreter reports on
  stderr is that LoadError, whose message names the offending file and the fault.  When
  no source document is found (\<open>datasets_d\<close> empty and the monolithic file missing) the
  run does not end there: the subcommand runs on a context whose \<open>erddap\<close> is \<open>None\<close>.
\<close>

theorem cli_load_failure:
  assumes "logger_add c (arg_log_level a) = None"
  shows "(arg_datasets_d a \<noteq> [] \<and>
          erddap_init c (arg_datasets_d a) (Some (arg_recursive a)) (world s) =
            Inl (EngineLoadError p fault) \<longrightarrow>
            cli c a environ cmd s =
              (Inl (EngineLoadError p fault),
               s\<lparr>calls := calls s @ [Construct (arg_datasets_d a) (Some (arg_recursive a))]\<rparr>) \<and>
            exit_status (fst (cli c a environ cmd s)) = 1 \<and>
            uncaught (fst (cli c a environ cmd s)) = Some (EngineLoadError p fault)) \<and>
         (arg_datasets_d a = [] \<and> path_exists c (world s) (arg_datasets_xml a) \<and>
          erddap_init c (arg_datasets_xml a) None (world s) = Inl (EngineLoadError p fault) \<longrightarrow>
            cli c a environ cmd s =
              (Inl (EngineLoadError p fault),
               s\<lparr>calls := calls s @ [Construct (arg_datasets_xml a) None]\<rparr>) \<and>
            exit_status (fst (cli c a environ cmd s)) = 1 \<and>
            uncaught (fst (cli c a environ cmd s)) = Some (EngineLoadError p fault)) \<and>
         (arg_datasets_d a = [] \<and> \<not> path_exists c (world s) (arg_datasets_xml a) \<longrightarrow>
            cli c a environ cmd s =
              (case cmd of
                 Save output \<Rightarrow> save c (ctx_of a None) environ output s
               | Sync sa \<Rightarrow> sync c (ctx_of a None) sa s
               | Test k \<Rightarrow> test c k s))"
proof (intro conjI impI)
  assume h: "arg_datasets_d a \<noteq> [] \<and>
    erddap_init c (arg_datasets_d a) (Some (arg_recursive a)) (world s) =
      Inl (EngineLoadError p fault)"
  then have m: "main c a s =
      (Inl (EngineLoadError p fault),
       s\<lparr>calls := calls s @ [Construct (arg_datasets_d a) (Some (arg_recursive a))]\<rparr>)"
    using main_glob [OF assms, of s] by simp
  show r: "cli c a environ cmd s =
      (Inl (EngineLoadError p fault),
       s\<lparr>calls := calls s @ [Construct (arg_datasets_d a) (Some (arg_recursive a))]\<rparr>)"
    by (rule cli_main_Inl [OF m])
  show "exit_status (fst (cli c a environ cmd s)) = 1"
    by (simp add: r)
  show "uncaught (fst (cli c a environ cmd s)) = Some (EngineLoadError p fault)"
    by (simp add: r)
next
  assume h: "arg_datasets_d a = [] \<and> path_exists c (world s) (arg_datasets_xml a) \<and>
    erddap_init c (arg_datasets_xml a) None (world s) = Inl (EngineLoadError p fault)"
  then have m: "main c a s =
      (Inl (EngineLoadError p fault), s\<lparr>calls := calls s @ [Construct (arg_datasets_xml a) None]\<rparr>)"
    using main_file [OF assms, of s] by simp
  show r: "cli c a environ cmd s =
      (Inl (EngineLoadError p fault), s\<lparr>calls := calls s @ [Construct (arg_datasets_xml a) None]\<rparr>)"
    by (rule cli_main_Inl [OF m])
  show "exit_status (fst (cli c a environ cmd s)) = 1"
    by (simp add: r)
  show "uncaught (fst (cli c a environ cmd s)) = Some (EngineLoadError p fault)"
    by (simp add: r)
next
  assume h: "arg_datasets_d a = [] \<and> \<not> path_exists c (world s) (arg_datasets_xml a)"
  then have m: "main c a s = (Inr (ctx_of a None), s)"
    using main_none [OF assms, of s] by simp
  show "cli c a environ cmd s =
      (case cmd of
         Save output \<Rightarrow> save c (ctx_of a None) environ output s
       | Sync sa \<Rightarrow> sync c (ctx_of a None) sa s
       | Test k \<Rightarrow> test c k s)"
    by (rule cli_main_Inr [OF m])
qed

theorem cli_load_failure_witness:
  "logger_add demo (arg_log_level demo_args) = None \<and>
   erddap_init demo ''broken.xml'' (Some True) 0 =
     Inl (EngineLoadError ''broken.xml'' ''malformed document'') \<and>
   cli demo (demo_args\<lparr>arg_datasets_d := ''broken.xml''\<rparr>) [] (Save ''{datasets_xml}'') (start 0) =
     (Inl (EngineLoadError ''broken.xml'' ''malformed document''),
      \<lparr>world = 0, calls = [Construct ''broken.xml'' (Some True)]\<rparr>) \<and>
   exit_status (fst (cli demo (demo_args\<lparr>arg_datasets_d := ''broken.xml''\<rparr>) []
       (Save ''{datasets_xml}'') (start 0))) = 1 \<and>
   uncaught (fst (cli demo (demo_args\<lparr>arg_datasets_d := ''broken.xml''\<rparr>) []
       (Save ''{datasets_xml}'') (start 0))) =
     Some (EngineLoadError ''broken.xml'' ''malformed document'') \<and>
   path_exists demo 0 ''broken.xml'' \<and>
   cli demo (demo_args\<lparr>arg_datasets_d := [], arg_datasets_xml := ''broken.xml''\<rparr>) []
       (Sync (demo_sync False)) (start 0) =
     (Inl (EngineLoadError ''broken.xml'' ''malformed document''),
      \<lparr>world = 0, calls = [Construct ''broken.xml'' None]\<rparr>) \<and>
   exit_status (fst (cli demo (demo_args\<lparr>arg_datasets_d := [], arg_datasets_xml := ''broken.xml''\<rparr>)
       [] (Sync (demo_sync False)) (start 0))) = 1 \<and>
   cli demo (demo_args\<lparr>arg_datasets_d := []\<rparr>) [] (Save ''{datasets_xml}'') (start 0) =
     save demo (ctx_of (demo_args\<lparr>arg_datasets_d := []\<rparr>) None) [] ''{datasets_xml}'' (start 0)"
  using cli_load_failure [of demo "demo_args\<lparr>arg_datasets_d := ''broken.xml''\<rparr>" "start 0"
      "''broken.xml''" "''malformed document''" "[]" "Save ''{datasets_xml}''"]
    cli_load_failure [of demo
      "demo_args\<lparr>arg_datasets_d := [], arg_datasets_xml := ''broken.xml''\<rparr>" "start 0"
      "''broken.xml''" "''malformed document''" "[]" "Sync (demo_sync False)"]
    cli_load_failure [of demo "demo_args\<lparr>arg_datasets_d := []\<rparr>" "start 0"
      "''broken.xml''" "''malformed document''" "[]" "Save ''{datasets_xml}''"]
  by (simp add: demo_simps)

text \<open>
  The claim as stated fails where no source document is found: with an empty
  \<open>datasets_d\<close> and no monolithic file, \<open>main\<close> returns normally.  \<open>sync\<close> then opens the
  repository and checks the branch out before it ends with an uncaught
  \<open>AttributeError\<close>, whose message names neither a file nor a load fault; \<open>test\<close> runs
  pytest and, when pytest reports success, the process exits with status 0 and reports
  nothing.
\<close>

theorem cli_no_source_continues_counterexample:
  "arg_datasets_d (demo_args\<lparr>arg_datasets_d := []\<rparr>) = [] \<and>
   \<not> path_exists demo 0 (arg_datasets_xml (demo_args\<lparr>arg_datasets_d := []\<rparr>)) \<and>
   main demo (demo_args\<lparr>arg_datasets_d := []\<rparr>) (start 0) =
     (Inr (ctx_of (demo_args\<lparr>arg_datasets_d := []\<rparr>) None), start 0) \<and>
   cli demo (demo_args\<lparr>arg_datasets_d := []\<rparr>) [] (Sync (demo_sync False)) (start 0) =
     (Inl AttributeError,
      \<lparr>world = 0, calls = [OpenRepo ''erddap-datasets'', Checkout (Some ''main'')]\<rparr>) \<and>
   uncaught (fst (cli demo (demo_args\<lparr>arg_datasets_d := []\<rparr>) [] (Sync (demo_sync False))
       (start 0))) = Some AttributeError \<and>
   cli demo (demo_args\<lparr>arg_datasets_d := []\<rparr>) [] (Test None) (start 0) =
     (Inr (), \<lparr>world = 0, calls = [PytestMain [''--pyargs'', ''erddap_deploy'']]\<rparr>) \<and>
   exit_status (fst (cli demo (demo_args\<lparr>arg_datasets_d := []\<rparr>) [] (Test None) (start 0))) = 0 \<and>
   uncaught (fst (cli demo (demo_args\<lparr>arg_datasets_d := []\<rparr>) [] (Test None) (start 0))) = None"
  by (simp add: demo_simps cli_def main_def load_erddap_def sync_def test_def test_args_def
      thn_def lift_def ret_def raise_def effect_def query_def pure_call_def option_error_def
      open_repo_def repo_missing_def)

section \<open>Properties of the registry engine\<close>

subsection \<open>Helper facts\<close>

lemmas engine_simps =
  tree_grammar_def buoy1_base_def buoy1_override_def buoy1_merged_def fragments_def

lemma sort_mset_cong: "mset xs = mset ys \<Longrightarrow> sort xs = sort (ys :: string list)"
  by (rule properties_for_sort) simp_all

lemma find_dataset_None: "find_dataset r i = None \<longleftrightarrow> i \<notin> set (dataset_ids r)"
  by (auto simp: find_dataset_def dataset_ids_def find_None_iff)

lemma map_fst_diff: "map fst (diff prev cur) = remdups (dataset_ids prev @ dataset_ids cur)"
  by (simp add: diff_def comp_def)

lemma map_of_diff:
  "map_of (diff prev cur) i =
     (if i \<in> set (dataset_ids prev) \<union> set (dataset_ids cur)
      then Some (diff_dataset (find_dataset prev i) (find_dataset cur i)) else None)"
  by (simp add: diff_def map_of_map_restrict restrict_map_def)

lemma changed_values_same: "changed_values xs xs = []"
  by (auto simp: changed_values_def split: option.splits)

lemma diff_attributes_same: "\<not> changed (diff_attributes xs xs)"
proof -
  have "filter (\<lambda>(k, v). map_of xs k = None) xs = []"
    by (auto simp: filter_empty_conv map_of_eq_None_iff intro: rev_image_eqI)
  then show ?thesis
    by (simp add: diff_attributes_def changed_values_same)
qed

subsection \<open>Diff\<close>

text \<open>
  Claim C2.  The diff of two snapshots has exactly one entry per identifier of the union
  of their identifiers; an identifier present only before is marked fully removed, one
  present only after is marked fully added, and an identifier whose dataset is the same
  in both snapshots has an entry whose changed flag is false.
\<close>

theorem diff_covers_union:
  "set (map fst (diff prev cur)) = set (dataset_ids prev) \<union> set (dataset_ids cur) \<and>
   distinct (map fst (diff prev cur)) \<and>
   (\<forall>i. i \<in> set (dataset_ids prev) \<and> i \<notin> set (dataset_ids cur) \<longrightarrow>
      (\<exists>d. map_of (diff prev cur) i = Some d \<and> presence d = FullyRemoved \<and> changed d)) \<and>
   (\<forall>i. i \<notin> set (dataset_ids prev) \<and> i \<in> set (dataset_ids cur) \<longrightarrow>
      (\<exists>d. map_of (diff prev cur) i = Some d \<and> presence d = FullyAdded \<and> changed d)) \<and>
   (\<forall>i x. find_dataset prev i = Some x \<and> find_dataset cur i = Some x \<longrightarrow>
      (\<exists>d. map_of (diff prev cur) i = Some d \<and> presence d = InBoth \<and> \<not> changed d))"
proof (intro conjI allI impI)
  show "set (map fst (diff prev cur)) = set (dataset_ids prev) \<union> set (dataset_ids cur)"
    by (simp add: map_fst_diff)
  show "distinct (map fst (diff prev cur))"
    by (simp add: map_fst_diff)
next
  fix i
  assume h: "i \<in> set (dataset_ids prev) \<and> i \<notin> set (dataset_ids cur)"
  then obtain b where b: "find_dataset prev i = Some b" and n: "find_dataset cur i = None"
    using find_dataset_None [of prev i] find_dataset_None [of cur i] by auto
  show "\<exists>d. map_of (diff prev cur) i = Some d \<and> presence d = FullyRemoved \<and> changed d"
    using h b n by (simp add: map_of_diff diff_dataset_def)
next
  fix i
  assume h: "i \<notin> set (dataset_ids prev) \<and> i \<in> set (dataset_ids cur)"
  then obtain a where a: "find_dataset cur i = Some a" and n: "find_dataset prev i = None"
    using find_dataset_None [of prev i] find_dataset_None [of cur i] by auto
  show "\<exists>d. map_of (diff prev cur) i = Some d \<and> presence d = FullyAdded \<and> changed d"
    using h a n by (simp add: map_of_diff diff_dataset_def)
next
  fix i x
  assume h: "find_dataset prev i = Some x \<and> find_dataset cur i = Some x"
  then have "i \<in> set (dataset_ids prev)"
    using find_dataset_None [of prev i] by auto
  then show "\<exists>d. map_of (diff prev cur) i = Some d \<and> presence d = InBoth \<and> \<not> changed d"
    using h diff_attributes_same [of "attributes x"]
    by (simp add: map_of_diff diff_dataset_def diff_attributes_def Let_def)
qed

theorem diff_covers_union_witness:
  "map fst (diff snapshot_a snapshot_b) = [''x'', ''y'', ''z''] \<and>
   (\<exists>d. map_of (diff snapshot_a snapshot_b) ''x'' = Some d \<and> presence d = FullyRemoved \<and> changed d) \<and>
   (\<exists>d. map_of (diff snapshot_a snapshot_b) ''z'' = Some d \<and> presence d = FullyAdded \<and> changed d) \<and>
   (\<exists>d. map_of (diff snapshot_a snapshot_b) ''y'' = Some d \<and> presence d = InBoth \<and> \<not> changed d)"
proof -
  have ids: "dataset_ids snapshot_a = [''x'', ''y'']" "dataset_ids snapshot_b = [''y'', ''z'']"
    by (simp_all add: dataset_ids_def snapshot_a_def snapshot_b_def plain_dataset_def)
  have y: "find_dataset snapshot_a ''y'' = Some (plain_dataset ''y'')"
    "find_dataset snapshot_b ''y'' = Some (plain_dataset ''y'')"
    by (simp_all add: find_dataset_def snapshot_a_def snapshot_b_def plain_dataset_def)
  have "map fst (diff snapshot_a snapshot_b) = [''x'', ''y'', ''z'']"
    by (simp add: diff_def comp_def ids)
  then show ?thesis
    using diff_covers_union [of snapshot_a snapshot_b] ids y by auto
qed

subsection \<open>Merge order\<close>

text \<open>
  Claim C7.  Two loads of the same fragment set from the same files give the same
  rendered bytes (or the same load error), in whatever order the file system lists the
  matches of the glob on each run: the listing is sorted before the merge.
\<close>

theorem load_merge_order_deterministic:
  assumes "mset (glob' pat rec) = mset (glob pat rec)"
  shows "map_sum id (render g) (load g fs glob' (FragmentSet pat rec)) =
         map_sum id (render g) (load g fs glob (FragmentSet pat rec))"
proof -
  have "sort (glob' pat rec) = sort (glob pat rec)"
    using assms by (rule sort_mset_cong)
  then show ?thesis
    by (simp add: load_def load_files_def source_files_def)
qed

theorem load_merge_order_deterministic_witness:
  "mset [''datasets.d/020-override.xml'', ''datasets.d/010-base.xml''] =
   mset [''datasets.d/010-base.xml'', ''datasets.d/020-override.xml''] \<and>
   map_sum id (render tree_grammar)
     (load tree_grammar fragments
        (\<lambda>pat rec. [''datasets.d/020-override.xml'', ''datasets.d/010-base.xml''])
        (FragmentSet ''datasets.d/*.xml'' True)) =
   map_sum id (render tree_grammar)
     (load tree_grammar fragments
        (\<lambda>pat rec. [''datasets.d/010-base.xml'', ''datasets.d/020-override.xml''])
        (FragmentSet ''datasets.d/*.xml'' True)) \<and>
   load tree_grammar fragments
     (\<lambda>pat rec. [''datasets.d/020-override.xml'', ''datasets.d/010-base.xml''])
     (FragmentSet ''datasets.d/*.xml'' True) =
   Inr \<lparr>datasets = [buoy1_merged], settings = [],
        loaded_from = FragmentSet ''datasets.d/*.xml'' True\<rparr>"
  using load_merge_order_deterministic [of
      "\<lambda>pat rec. [''datasets.d/020-override.xml'', ''datasets.d/010-base.xml'']"
      "''datasets.d/*.xml''" True
      "\<lambda>pat rec. [''datasets.d/010-base.xml'', ''datasets.d/020-override.xml'']"
      tree_grammar fragments]
  by (simp add: engine_simps load_def load_files_def source_files_def fold_document_def
      merge_attributes_def)

end
